theory Spec2Isabelle
  imports Complex_Main "HOL-Library.Word"
begin

section \<open>The element tree of example.cpp\<close>

text \<open>
  The program keeps a structure-of-arrays scene graph (\<open>ElementTree\<close>) and a ring of
  three virtual frames (\<open>Context\<close>). This theory embeds both, function by function, and
  states the properties of the specification over the embedding.

  Conventions of the embedding.
  \<^item> \<open>i32\<close> and \<open>i64\<close> values are \<open>int\<close>. The only arithmetic the program does on
    them is a counting increment bounded by a comparison, so no wrap-around is reachable.
  \<^item> A raw array (\<open>Element *elements\<close> and its siblings) is a function from the slot
    number to the value stored there. The source never compares a slot number with
    \<open>elementCapacity\<close> before it reads or writes, and neither does the model: a store
    to slot \<open>k\<close> changes slot \<open>k\<close> of that array, whatever \<open>k\<close> is. The six arrays
    are separate allocations and are separate functions here.
  \<^item> \<open>f32\<close> components are a type parameter \<open>'f\<close> of the tree, of which the tree
    code uses only zero and addition; the rendering driver fixes it to \<open>real\<close>.
\<close>

subsection \<open>Data\<close>

text \<open>\<open>struct ElementIndex { i32 index = 0; }\<close>: the default-constructed value holds 0.\<close>

datatype ElementIndex = ElementIndex (index: int)

definition ElementIndex_default :: ElementIndex where
  "ElementIndex_default = ElementIndex 0"

text \<open>
  Modelled from the spec: \<open>Vec2\<close> and \<open>Vec4\<close> of oak_math, which is not among the
  sources. The program reads the fields \<open>x\<close>, \<open>y\<close>, \<open>z\<close>, \<open>w\<close>, value-initialises
  with \<open>Vec2{}\<close> and adds two \<open>Vec2\<close> with \<open>+\<close>; the addition is taken componentwise
  (the specification's example adds (10,10) and (5,5) to (15,15)).
\<close>

datatype 'f Vec2 = Vec2 (vec_x: 'f) (vec_y: 'f)

datatype 'f Vec4 = Vec4 (col_x: 'f) (col_y: 'f) (col_z: 'f) (col_w: 'f)

definition Vec2_zero :: "('f::zero) Vec2" where
  "Vec2_zero = Vec2 0 0"

definition Vec2_add :: "('f::plus) Vec2 \<Rightarrow> 'f Vec2 \<Rightarrow> 'f Vec2" where
  "Vec2_add a b = Vec2 (vec_x a + vec_x b) (vec_y a + vec_y b)"

record 'f ElementPadding =
  pad_right :: 'f
  pad_top :: 'f
  pad_left :: 'f
  pad_bottom :: 'f

text \<open>\<open>struct Element\<close>; the field \<open>id\<close> (an \<open>ElementId\<close>, a \<open>u64\<close>) is \<open>elem_id\<close>.\<close>

record 'f Element =
  elem_id :: "64 word"
  pos :: "'f Vec2"
  alignment :: "'f Vec2"
  extent :: "'f Vec2"
  padding :: "'f ElementPadding"
  flags :: "32 word"

definition Element_default :: "('f::zero) Element" where
  "Element_default =
     \<lparr>elem_id = 0, pos = Vec2_zero, alignment = Vec2_zero, extent = Vec2_zero,
      padding = \<lparr>pad_right = 0, pad_top = 0, pad_left = 0, pad_bottom = 0\<rparr>,
      flags = 0\<rparr>"

definition from_id :: "64 word \<Rightarrow> ('f::zero) Element" where
  "from_id i = Element_default\<lparr>elem_id := i\<rparr>"

record 'f ElementConstraints =
  target :: ElementIndex
  minExtent :: "'f Vec2"
  maxExtent :: "'f Vec2"

record 'f ElementTree =
  elements :: "int \<Rightarrow> 'f Element"
  parents :: "int \<Rightarrow> ElementIndex"
  firstChildren :: "int \<Rightarrow> ElementIndex"
  lastChildren :: "int \<Rightarrow> ElementIndex"
  siblings :: "int \<Rightarrow> ElementIndex"
  positions :: "int \<Rightarrow> 'f Vec2"
  elementCount :: int
  elementCapacity :: int
  constraints :: "int \<Rightarrow> 'f ElementConstraints"
  constraintCount :: int
  constraintCapacity :: int

subsection \<open>Operations\<close>

definition begin_ui :: "'f ElementTree \<Rightarrow> 'f ElementTree" where
  "begin_ui t = t\<lparr>elementCount := 0\<rparr>"

text \<open>
  \<open>ElementTree::push_element\<close>, statement by statement. The five stores to slot
  \<open>result.index\<close> come first; the three link arrays receive \<open>{}\<close>, the
  default-constructed \<open>ElementIndex\<close>. The function has no other statement: in
  particular it does not read \<open>elementCapacity\<close> and does not assign \<open>elementCount\<close>.
\<close>

definition push_element ::
  "'f ElementTree \<Rightarrow> ElementIndex \<Rightarrow> 'f Element \<Rightarrow> ElementIndex \<times> 'f ElementTree" where
  "push_element t parent elem =
     (let result = ElementIndex (elementCount t);
          t1 = t\<lparr>elements := (elements t)(index result := elem)\<rparr>;
          t2 = t1\<lparr>parents := (parents t1)(index result := parent)\<rparr>;
          t3 = t2\<lparr>firstChildren := (firstChildren t2)(index result := ElementIndex_default)\<rparr>;
          t4 = t3\<lparr>lastChildren := (lastChildren t3)(index result := ElementIndex_default)\<rparr>;
          t5 = t4\<lparr>siblings := (siblings t4)(index result := ElementIndex_default)\<rparr>;
          t9 = (if index parent \<noteq> - 1 then
                  (let t6 = (if index (lastChildren t5 (index parent)) \<noteq> - 1
                             then t5\<lparr>siblings :=
                                    (siblings t5)(index (lastChildren t5 (index parent)) := result)\<rparr>
                             else t5);
                       t7 = t6\<lparr>lastChildren := (lastChildren t6)(index parent := result)\<rparr>;
                       t8 = (if index (firstChildren t7 (index parent)) = - 1
                             then t7\<lparr>firstChildren := (firstChildren t7)(index parent := result)\<rparr>
                             else t7)
                   in t8)
                else t5)
      in (result, t9))"

text \<open>\<open>ElementTree::layout\<close>: a counting loop whose body is empty.\<close>

function layout_loop :: "int \<Rightarrow> 'f ElementTree \<Rightarrow> 'f ElementTree" where
  "layout_loop i t = (if i < elementCount t then layout_loop (i + 1) t else t)"
  by pat_completeness auto
termination
  by (relation "measure (\<lambda>(i, t). nat (elementCount t - i))") auto

definition layout :: "'f ElementTree \<Rightarrow> 'f ElementTree" where
  "layout t = layout_loop 0 t"

text \<open>
  \<open>ElementTree::transform\<close>: for each slot in index order, the base is the position
  already stored for the parent (or \<open>Vec2{}\<close> without one), and the slot's position
  becomes base plus the element's \<open>pos\<close>. \<open>parentExtent\<close> is computed by the source
  and never used.
\<close>

definition transform_step :: "int \<Rightarrow> ('f::{zero,plus}) ElementTree \<Rightarrow> 'f ElementTree" where
  "transform_step i t =
     (let parentOrigin = (if index (parents t i) \<noteq> - 1
                          then positions t (index (parents t i)) else Vec2_zero)
      in t\<lparr>positions := (positions t)(i := Vec2_add parentOrigin (pos (elements t i)))\<rparr>)"

function transform_loop :: "int \<Rightarrow> ('f::{zero,plus}) ElementTree \<Rightarrow> 'f ElementTree" where
  "transform_loop i t =
     (if i < elementCount t then transform_loop (i + 1) (transform_step i t) else t)"
  by pat_completeness auto
termination
  by (relation "measure (\<lambda>(i, t). nat (elementCount t - i))")
     (auto simp: transform_step_def Let_def)

definition transform :: "('f::{zero,plus}) ElementTree \<Rightarrow> 'f ElementTree" where
  "transform t = transform_loop 0 t"

definition end_ui :: "('f::{zero,plus}) ElementTree \<Rightarrow> 'f ElementTree" where
  "end_ui t = transform (layout t)"

text \<open>
  \<open>ElementTree::operator[]\<close> returns \<open>elements + index.index\<close>. A pointer into the
  \<open>elements\<close> array is its offset from \<open>elements\<close>; reading and writing through it
  access that slot.
\<close>

datatype ElementPtr = ElementPtr (slot: int)

definition subscript :: "'f ElementTree \<Rightarrow> ElementIndex \<Rightarrow> ElementPtr" where
  "subscript t i = ElementPtr (index i)"

definition deref :: "'f ElementTree \<Rightarrow> ElementPtr \<Rightarrow> 'f Element" where
  "deref t p = elements t (slot p)"

definition store_extent :: "'f ElementTree \<Rightarrow> ElementPtr \<Rightarrow> 'f Vec2 \<Rightarrow> 'f ElementTree" where
  "store_extent t p v =
     t\<lparr>elements := (elements t)(slot p := (elements t (slot p))\<lparr>extent := v\<rparr>)\<rparr>"

section \<open>The frame pipeline and the rendering driver\<close>

subsection \<open>The graphics interface\<close>

text \<open>
  \<open>GLenum\<close> is an enumeration over \<open>GLuint\<close>; the values below are those of web_gl.h.
\<close>

type_synonym GLenum = "32 word"

definition GL_COLOR_BUFFER_BIT :: GLenum where "GL_COLOR_BUFFER_BIT = 0x4000"
definition GL_TRIANGLES :: GLenum where "GL_TRIANGLES = 0x0004"
definition GL_COPY_READ_BUFFER :: GLenum where "GL_COPY_READ_BUFFER = 0x8F36"
definition GL_COPY_WRITE_BUFFER :: GLenum where "GL_COPY_WRITE_BUFFER = 0x8F37"
definition GL_SYNC_GPU_COMMANDS_COMPLETE :: GLenum where "GL_SYNC_GPU_COMMANDS_COMPLETE = 0x9117"
definition GL_ALREADY_SIGNALED :: GLenum where "GL_ALREADY_SIGNALED = 0x911A"
definition GL_TIMEOUT_EXPIRED :: GLenum where "GL_TIMEOUT_EXPIRED = 0x911B"
definition GL_CONDITION_SATISFIED :: GLenum where "GL_CONDITION_SATISFIED = 0x911C"
definition GL_WAIT_FAILED :: GLenum where "GL_WAIT_FAILED = 0x911D"

text \<open>
  The imported \<open>gl_*\<close> functions are calls into the host. The model records every call
  the program makes, with its arguments, in the order made (for \<open>gl_buffer_sub_data\<close>
  the floats behind the data pointer, then the size in bytes).
\<close>

datatype gl_call =
    ClearColor real real real real
  | Clear GLenum
  | BindBuffer GLenum int
  | BufferSubData GLenum int "real list" int
  | CopyBufferSubData GLenum GLenum int int int
  | UseProgram int
  | DrawArrays GLenum int int
  | FenceSync GLenum "32 word"
  | DeleteSync int
  | ClientWaitSync int "32 word" "64 word"

text \<open>
  What the host answers, and what the sources leave to other files, for one tick:
  the result of \<open>gl_client_wait_sync\<close> for a fence handle, the handle returned by
  \<open>gl_fence_sync\<close>, \<open>rotate\<close> of oak_math, the two identities that \<open>new_id()\<close>
  computes with the hash functions of oak_util, and the values the uninitialised locals
  \<open>mouseX\<close>, \<open>mouseY\<close> happen to hold.
\<close>

record Host =
  clientWaitSync :: "int \<Rightarrow> GLenum"
  fenceSync :: int
  rotate :: "real Vec2 \<Rightarrow> real \<Rightarrow> real Vec2"
  windowId :: "64 word"
  otherId :: "64 word"
  mouseX0 :: int
  mouseY0 :: int

subsection \<open>Data\<close>

record VirtualFrame =
  stagingBuffer :: int
  fence :: int

datatype EventType = MOUSE_MOVE | MOUSE_DOWN | MOUSE_UP

text \<open>\<open>struct Event { EventType type; int x, y, button; }\<close>\<close>

datatype Event = Event (evt_type: EventType) (evt_x: int) (evt_y: int) (evt_button: int)

record DrawCommand =
  elementIndex :: ElementIndex
  color :: "real Vec4"

text \<open>
  Modelled from the spec: the containers \<open>Array\<close>, \<open>Vector\<close> and \<open>FixedArray\<close> of
  oak_util, which is not among the sources. The event array and the command vector are
  the lists of their entries, oldest first: \<open>push\<close> appends, \<open>clear()\<close> empties, a
  range-for visits the entries in order. \<open>virtualFrames\<close> is a \<open>FixedArray\<close> of
  capacity 3, read and written at \<open>virtualFrameIdx\<close>.
\<close>

record Context =
  events :: "Event list"
  virtualFrames :: "int \<Rightarrow> VirtualFrame"
  elementTree :: "real ElementTree"
  drawCommands :: "DrawCommand list"
  virtualFrameIdx :: int
  geomBuf :: int
  sceneBuf :: int
  vao :: int
  prog :: int

definition virtualFrames_capacity :: int where
  "virtualFrames_capacity = 3"

text \<open>
  The state of the program and of what it has sent out: the global \<open>context\<close>, the
  function-local static \<open>lastTimestamp\<close> of \<open>c_render\<close>, the graphics calls made
  so far and the lines given to \<open>console_log\<close>.
\<close>

record World =
  ctx :: Context
  lastTimestamp :: real
  glCalls :: "gl_call list"
  console :: "string list"

subsection \<open>Operations\<close>

text \<open>\<open>Context::begin_frame\<close>. The flags and the timeout of the poll are both 0.\<close>

definition begin_frame :: "Host \<Rightarrow> World \<Rightarrow> bool \<times> World" where
  "begin_frame h w =
     (let c = ctx w;
          frame = virtualFrames c (virtualFrameIdx c)
      in if fence frame \<noteq> 0 then
           (let result = clientWaitSync h (fence frame);
                w1 = w\<lparr>glCalls := glCalls w @ [ClientWaitSync (fence frame) 0 0]\<rparr>
            in if result = GL_WAIT_FAILED then
                 (False, w1\<lparr>console := console w1 @ [''Wait failed'']\<rparr>)
               else if result = GL_TIMEOUT_EXPIRED then
                 (False, w1\<lparr>console := console w1 @ [''Timeout expired'']\<rparr>)
               else
                 (True, w1\<lparr>glCalls := glCalls w1 @ [DeleteSync (fence frame)],
                           ctx := c\<lparr>virtualFrames :=
                                     (virtualFrames c)(virtualFrameIdx c := frame\<lparr>fence := 0\<rparr>)\<rparr>\<rparr>))
         else (True, w))"

text \<open>\<open>Context::end_frame\<close>.\<close>

definition end_frame :: "Host \<Rightarrow> World \<Rightarrow> World" where
  "end_frame h w =
     (let c = ctx w;
          frame = virtualFrames c (virtualFrameIdx c);
          g = glCalls w @ [FenceSync GL_SYNC_GPU_COMMANDS_COMPLETE 0];
          c1 = c\<lparr>virtualFrames :=
                  (virtualFrames c)(virtualFrameIdx c := frame\<lparr>fence := fenceSync h\<rparr>)\<rparr>;
          c2 = c1\<lparr>virtualFrameIdx := virtualFrameIdx c1 + 1\<rparr>;
          c3 = (if virtualFrameIdx c2 \<ge> virtualFrames_capacity
                then c2\<lparr>virtualFrameIdx := 0\<rparr> else c2)
      in w\<lparr>ctx := c3, glCalls := g\<rparr>)"

text \<open>
  \<open>push_rectangle\<close>: six vertices of six floats each, 144 bytes, uploaded at
  \<open>*offset\<close>, which then advances by 144.
\<close>

definition push_rectangle ::
  "int \<Rightarrow> real Vec2 \<Rightarrow> real Vec2 \<Rightarrow> real Vec4 \<Rightarrow> gl_call list \<Rightarrow> int \<times> gl_call list" where
  "push_rectangle offset p e c g =
     (let rectangle =
            [vec_x p,             vec_y p,             col_x c, col_y c, col_z c, col_w c,
             vec_x p + vec_x e,   vec_y p,             col_x c, col_y c, col_z c, col_w c,
             vec_x p + vec_x e,   vec_y p + vec_y e,   col_x c, col_y c, col_z c, col_w c,
             vec_x p + vec_x e,   vec_y p + vec_y e,   col_x c, col_y c, col_z c, col_w c,
             vec_x p,             vec_y p + vec_y e,   col_x c, col_y c, col_z c, col_w c,
             vec_x p,             vec_y p,             col_x c, col_y c, col_z c, col_w c]
      in (offset + 144, g @ [BufferSubData GL_COPY_READ_BUFFER offset rectangle 144]))"

text \<open>
  The parts of \<open>c_render\<close>, in source order. First the rebuild of the tree
  (lines 448 to 454): reset, two appends, a store of the extent through \<open>operator[]\<close>,
  then layout and transform.
\<close>

definition build_ui :: "Host \<Rightarrow> real ElementTree \<Rightarrow> ElementIndex \<times> real ElementTree" where
  "build_ui h t =
     (let t0 = begin_ui t;
          (windowElem, t1) = push_element t0 (ElementIndex (- 1)) (from_id (windowId h));
          (otherElem, t2) = push_element t1 windowElem (from_id (otherId h));
          t3 = store_extent t2 (subscript t2 otherElem) (Vec2 32 128)
      in (otherElem, end_ui t3))"

text \<open>The loop over the queued events (lines 456 to 467): the last mouse move wins.\<close>

definition scan_events :: "Event list \<Rightarrow> int \<times> int \<Rightarrow> int \<times> int" where
  "scan_events evs m =
     foldl (\<lambda>(mouseX, mouseY) evt.
              (case evt_type evt of
                 MOUSE_MOVE \<Rightarrow> (evt_x evt, 600 - evt_y evt)
               | MOUSE_DOWN \<Rightarrow> (mouseX, mouseY)
               | MOUSE_UP \<Rightarrow> (mouseX, mouseY))) m evs"

text \<open>
  The hit test and the command it queues (lines 470 to 481); \<open>{ 1.f }\<close> initialises the
  first component of the colour and leaves the others zero.
\<close>

definition pick_command :: "real ElementTree \<Rightarrow> ElementIndex \<Rightarrow> int \<times> int \<Rightarrow> DrawCommand" where
  "pick_command t otherElem m =
     (let e = elements t (index otherElem);
          mouseX = real_of_int (fst m);
          mouseY = real_of_int (snd m)
      in if mouseX \<ge> vec_x (pos e)
            \<and> mouseX \<le> vec_x (pos e) + vec_x (extent e)
            \<and> mouseY \<ge> vec_y (pos e)
            \<and> mouseY \<le> vec_y (pos e) + vec_y (extent e)
         then \<lparr>elementIndex = otherElem, color = Vec4 (1 / 10) (2 / 10) (9 / 10) 1\<rparr>
         else \<lparr>elementIndex = otherElem, color = Vec4 1 0 0 0\<rparr>)"

text \<open>
  The loop over the draw commands (lines 498 to 503), carrying the byte offset and the
  calls made.
\<close>

definition draw_commands ::
  "real ElementTree \<Rightarrow> DrawCommand list \<Rightarrow> int \<times> gl_call list \<Rightarrow> int \<times> gl_call list" where
  "draw_commands t cmds start =
     foldl (\<lambda>(offset, g) drawCmd.
              push_rectangle offset
                (positions t (index (elementIndex drawCmd)))
                (extent (elements t (index (elementIndex drawCmd))))
                (color drawCmd) g) start cmds"

text \<open>
  The rest of a tick that may begin its frame (lines 488 to 530): clear, bind the frame's
  staging buffer, upload one rectangle per command, empty the command queue, upload the
  rotated triangle (72 bytes), copy, draw, and \<open>end_frame\<close>. The final
  \<open>temporaryAllocator->clear()\<close> acts on the allocator of oak_util only.
\<close>

definition submit_frame :: "Host \<Rightarrow> real \<Rightarrow> World \<Rightarrow> World" where
  "submit_frame h timestamp w =
     (let c = ctx w;
          frame = virtualFrames c (virtualFrameIdx c);
          g1 = glCalls w @ [ClearColor (2 / 10) (2 / 10) (2 / 10) 1,
                            Clear GL_COLOR_BUFFER_BIT,
                            BindBuffer GL_COPY_READ_BUFFER (stagingBuffer frame),
                            BindBuffer GL_COPY_WRITE_BUFFER (geomBuf c)];
          (offset, g2) = draw_commands (elementTree c) (drawCommands c) (0, g1);
          c1 = c\<lparr>drawCommands := []\<rparr>;
          v0 = rotate h (Vec2 (- 10) (- 10)) timestamp;
          v1 = rotate h (Vec2 10 (- 10)) timestamp;
          v2 = rotate h (Vec2 0 10) timestamp;
          triangle = [100 + vec_x v0, 100 + vec_y v0, 1, 0, 1, 1,
                      100 + vec_x v1, 100 + vec_y v1, 0, 1, 1, 1,
                      100 + vec_x v2, 100 + vec_y v2, 0, 0, 1, 1];
          g3 = g2 @ [BufferSubData GL_COPY_READ_BUFFER offset triangle 72];
          offset1 = offset + 72;
          g4 = g3 @ [CopyBufferSubData GL_COPY_READ_BUFFER GL_COPY_WRITE_BUFFER 0 0 offset1,
                     UseProgram (prog c),
                     DrawArrays GL_TRIANGLES 0 (offset1 div 24)]
      in end_frame h (w\<lparr>ctx := c1, glCalls := g4\<rparr>))"

text \<open>
  The part of \<open>c_render\<close> between the test of the queue and \<open>begin_frame\<close> (lines
  448 to 481): rebuild the tree, read the events, empty the event queue, queue one draw
  command.
\<close>

definition rebuild_and_queue :: "Host \<Rightarrow> World \<Rightarrow> World" where
  "rebuild_and_queue h w =
     (let c = ctx w;
          (otherElem, tree) = build_ui h (elementTree c);
          m = scan_events (events c) (mouseX0 h, mouseY0 h);
          c1 = c\<lparr>elementTree := tree\<rparr>;
          c2 = c1\<lparr>events := []\<rparr>;
          c3 = c2\<lparr>drawCommands := drawCommands c2 @ [pick_command tree otherElem m]\<rparr>
      in w\<lparr>ctx := c3\<rparr>)"

text \<open>
  \<open>c_render\<close>, the tick entry point. \<open>dt\<close> is computed and discarded; the static
  \<open>lastTimestamp\<close> is assigned before the queue is looked at. When \<open>begin_frame\<close>
  answers false the function returns at once.
\<close>

definition c_render :: "Host \<Rightarrow> real \<Rightarrow> World \<Rightarrow> World" where
  "c_render h timestamp w0 =
     (let w = w0\<lparr>lastTimestamp := timestamp\<rparr>
      in if length (events (ctx w)) = 0 then w
         else
           (let (ok, w1) = begin_frame h (rebuild_and_queue h w)
            in if \<not> ok then w1 else submit_frame h timestamp w1))"

text \<open>
  Modelled from the spec: the arrival of input.
  Between two ticks the input handlers (\<open>handle_mousemove\<close> and its two siblings) push
  onto \<open>context->events\<close> and touch nothing else; \<open>arrive\<close> is the world once the
  events \<open>evs\<close> have been queued that way. The push itself belongs to oak_util, and the
  sources do not show what it does to an array that already holds its 64 entries, so
  \<open>arrive\<close> is meant for queues that stay within 64.
\<close>

definition arrive :: "Event list \<Rightarrow> World \<Rightarrow> World" where
  "arrive evs w = w\<lparr>ctx := (ctx w)\<lparr>events := events (ctx w) @ evs\<rparr>\<rparr>"

section \<open>The specification's wording, and inputs for the examples\<close>

text \<open>
  The specification gives the tree two failures that the source has no counterpart
  for. They are written here as the specification words them, to be compared with the
  embedded functions: an append that refuses a full tree and leaves it alone, and a lookup
  that refuses an index at or beyond the element count.
\<close>

datatype error = CapacityExceeded | IndexOutOfRange


definition spec_lookup :: "'f ElementTree \<Rightarrow> ElementIndex \<Rightarrow> error + ElementPtr" where
  "spec_lookup t i =
     (if index i \<ge> elementCount t then Inl IndexOutOfRange else Inr (ElementPtr (index i)))"

text \<open>
  The child list of a parent as the specification reads it: start at \<open>firstChild\<close>,
  follow \<open>nextSibling\<close>, stop at -1. The walk is bounded by a number of steps, since the
  links of a tree are data and need not end.
\<close>

fun walk :: "nat \<Rightarrow> 'f ElementTree \<Rightarrow> int \<Rightarrow> int list" where
  "walk 0 t i = []"
| "walk (Suc n) t i = (if i = - 1 then [] else i # walk n t (index (siblings t i)))"

definition child_list :: "nat \<Rightarrow> 'f ElementTree \<Rightarrow> int \<Rightarrow> int list" where
  "child_list n t p = walk n t (index (firstChildren t p))"

text \<open>A tree of capacity 2 whose links all hold -1, with nothing stored.\<close>

definition blank_tree :: "real ElementTree" where
  "blank_tree =
     \<lparr>elements = (\<lambda>_. Element_default),
      parents = (\<lambda>_. ElementIndex (- 1)),
      firstChildren = (\<lambda>_. ElementIndex (- 1)),
      lastChildren = (\<lambda>_. ElementIndex (- 1)),
      siblings = (\<lambda>_. ElementIndex (- 1)),
      positions = (\<lambda>_. Vec2_zero),
      elementCount = 0,
      elementCapacity = 2,
      constraints = (\<lambda>_. \<lparr>target = ElementIndex (- 1), minExtent = Vec2_zero,
                            maxExtent = Vec2_zero\<rparr>),
      constraintCount = 0,
      constraintCapacity = 0\<rparr>"



text \<open>
  One element of extent 200 by 200 and one constraint entry that targets it with a
  maximal extent of 100 by 100.
\<close>

definition clamp_tree :: "real ElementTree" where
  "clamp_tree =
     blank_tree\<lparr>elements := (\<lambda>_. Element_default)
                    (0 := Element_default\<lparr>extent := Vec2 200 200\<rparr>),
                elementCount := 1,
                constraints := (\<lambda>_. \<lparr>target = ElementIndex (- 1), minExtent = Vec2_zero,
                                      maxExtent = Vec2_zero\<rparr>)
                    (0 := \<lparr>target = ElementIndex 0, minExtent = Vec2_zero,
                           maxExtent = Vec2 100 100\<rparr>),
                constraintCount := 1,
                constraintCapacity := 1\<rparr>"



text \<open>The number of \<open>gl_fence_sync\<close> calls in a record of calls.\<close>

definition fence_syncs :: "gl_call list \<Rightarrow> nat" where
  "fence_syncs g = length (filter (\<lambda>c. case c of FenceSync _ _ \<Rightarrow> True | _ \<Rightarrow> False) g)"

text \<open>
  A refresh interval: the events \<open>evs\<close> arrive, then the host calls \<open>c_render\<close>. The
  tick proceeds when \<open>c_render\<close> finds the queue non-empty and \<open>begin_frame\<close> lets
  it begin the frame.
\<close>

definition tick :: "Host \<Rightarrow> real \<Rightarrow> Event list \<Rightarrow> World \<Rightarrow> World" where
  "tick h timestamp evs w = c_render h timestamp (arrive evs w)"

definition proceeds :: "Host \<Rightarrow> Event list \<Rightarrow> World \<Rightarrow> bool" where
  "proceeds h evs w = (events (ctx (arrive evs w)) \<noteq> [] \<and> fst (begin_frame h (arrive evs w)))"

text \<open>
  A world to run examples on: three frames with staging buffers 1, 2, 3 and no fence,
  the cursor at 0, both queues empty, the blank tree, no call recorded.
\<close>

definition idle_world :: World where
  "idle_world =
     \<lparr>ctx = \<lparr>events = [],
             virtualFrames = (\<lambda>i. \<lparr>stagingBuffer = i + 1, fence = 0\<rparr>),
             elementTree = blank_tree,
             drawCommands = [],
             virtualFrameIdx = 0,
             geomBuf = 4, sceneBuf = 5, vao = 6, prog = 7\<rparr>,
      lastTimestamp = 0,
      glCalls = [],
      console = []\<rparr>"

text \<open>The same world with fence 9 outstanding on frame 0 and one mouse move queued.\<close>

definition busy_world :: World where
  "busy_world =
     idle_world\<lparr>ctx := (ctx idle_world)
                  \<lparr>events := [Event MOUSE_MOVE 10 20 (- 1)],
                   virtualFrames := (\<lambda>i. \<lparr>stagingBuffer = i + 1, fence = 0\<rparr>)
                                      (0 := \<lparr>stagingBuffer = 1, fence = 9\<rparr>)\<rparr>\<rparr>"

text \<open>
  A host that answers every poll with \<open>r\<close> and hands out the fence handle 11; its
  \<open>rotate\<close> returns the vector unchanged.
\<close>

definition host_with :: "GLenum \<Rightarrow> Host" where
  "host_with r =
     \<lparr>clientWaitSync = (\<lambda>_. r), fenceSync = 11, rotate = (\<lambda>v a. v),
      windowId = 1, otherId = 2, mouseX0 = 0, mouseY0 = 0\<rparr>"

section \<open>Properties of the element tree\<close>

declare transform_loop.simps [simp del]
declare layout_loop.simps [simp del]

subsection \<open>Appending\<close>

lemma push_element_count: "elementCount (snd (push_element t p e)) = elementCount t"
  by (simp add: push_element_def Let_def)

lemma push_element_index: "fst (push_element t p e) = ElementIndex (elementCount t)"
  by (simp add: push_element_def Let_def)

lemma push_element_stores: "elements (snd (push_element t p e)) (elementCount t) = e"
  by (simp add: push_element_def Let_def)

text \<open>
  Claim C1 says that the k-th append into a reset tree lands in slot k-1, returns k-1, and
  leaves the element count at the number of appends. \<open>push_element\<close> never assigns
  \<open>elementCount\<close>, so the claim fails at the second append: after \<open>begin_ui\<close>, both
  the first and the second append return index 0, the count is still 0 afterwards (so
  the returned index is not below it), and the second element has overwritten the first
  in slot 0.
\<close>

theorem push_element_repeats_slot:
  "fst (push_element (begin_ui t) p1 e1) = ElementIndex 0 \<and>
   fst (push_element (snd (push_element (begin_ui t) p1 e1)) p2 e2) = ElementIndex 0 \<and>
   elementCount (snd (push_element (snd (push_element (begin_ui t) p1 e1)) p2 e2)) = 0 \<and>
   elements (snd (push_element (snd (push_element (begin_ui t) p1 e1)) p2 e2)) 0 = e2"
proof -
  let ?t1 = "snd (push_element (begin_ui t) p1 e1)"
  have c0: "elementCount (begin_ui t) = 0" by (simp add: begin_ui_def)
  have c1: "elementCount ?t1 = 0" by (simp add: push_element_count c0)
  have "elements (snd (push_element ?t1 p2 e2)) (elementCount ?t1) = e2"
    by (rule push_element_stores)
  then show ?thesis
    by (simp add: push_element_count push_element_index c0 c1)
qed

text \<open>
  Claim C2 says that a newly appended element's \<open>firstChild\<close>, \<open>lastChild\<close> and
  \<open>nextSibling\<close> hold -1, and that walking a parent's child list yields exactly the
  children appended to it. \<open>push_element\<close> stores the default-constructed index, which
  is 0, in all three: a root appended alone into a reset tree has the three links of
  slot 0 equal to 0, and the walk from its \<open>firstChild\<close> lists slot 0 itself, again and
  again, although nothing was appended to it.
\<close>

theorem push_element_links_zero:
  "firstChildren (snd (push_element (begin_ui blank_tree) (ElementIndex (- 1)) e)) 0 = ElementIndex 0 \<and>
   lastChildren (snd (push_element (begin_ui blank_tree) (ElementIndex (- 1)) e)) 0 = ElementIndex 0 \<and>
   siblings (snd (push_element (begin_ui blank_tree) (ElementIndex (- 1)) e)) 0 = ElementIndex 0 \<and>
   child_list 3 (snd (push_element (begin_ui blank_tree) (ElementIndex (- 1)) e)) 0 = [0, 0, 0]"
  by (simp add: push_element_def Let_def begin_ui_def blank_tree_def ElementIndex_default_def
      child_list_def numeral_3_eq_3)




subsection \<open>Lookup\<close>

text \<open>
  Claim C9 says that a lookup at an index at or beyond the element count fails with
  \<open>IndexOutOfRange\<close>. The source's \<open>operator[]\<close> is pointer arithmetic. In a reset
  tree (count 0) the specification's lookup refuses index 5, while \<open>operator[]\<close>
  returns the address of slot 5, and a store through it lands there.
\<close>

theorem subscript_beyond_count:
  "index (ElementIndex 5) \<ge> elementCount (begin_ui blank_tree) \<and>
   spec_lookup (begin_ui blank_tree) (ElementIndex 5) = Inl IndexOutOfRange \<and>
   subscript (begin_ui blank_tree) (ElementIndex 5) = ElementPtr 5 \<and>
   extent (deref (store_extent (begin_ui blank_tree)
                    (subscript (begin_ui blank_tree) (ElementIndex 5)) (Vec2 32 128))
                 (ElementPtr 5)) = Vec2 32 128"
  by (simp add: begin_ui_def blank_tree_def spec_lookup_def subscript_def deref_def
      store_extent_def)

text \<open>
  Claim C9 as amended: the lookup makes no range check. For every index, at or beyond
  the element count included, it returns the address of that slot of \<open>elements\<close>;
  reading through the address reads the slot and storing through it writes the slot.
\<close>

theorem subscript_unguarded:
  "subscript t i = ElementPtr (index i) \<and>
   deref t (subscript t i) = elements t (index i) \<and>
   elements (store_extent t (subscript t i) v) (index i) = (elements t (index i))\<lparr>extent := v\<rparr>"
  by (simp add: subscript_def deref_def store_extent_def)

subsection \<open>Layout\<close>

lemma layout_loop_id: "layout_loop i t = t"
proof (induction i t rule: layout_loop.induct)
  case (1 i t)
  show ?case
    by (subst layout_loop.simps) (use 1 in simp)
qed

text \<open>
  Claim C8 says that after \<open>layout()\<close> an extent lies within the bounds of a
  constraint that targets its node, so that 200 under a maximum of 100 becomes 100.
  The source's \<open>layout\<close> is a loop with an empty body: the element of extent 200 whose
  constraint has maximum 100 still has extent 200 afterwards.
\<close>

theorem layout_does_not_clamp:
  "target (constraints (layout clamp_tree) 0) = ElementIndex 0 \<and>
   maxExtent (constraints (layout clamp_tree) 0) = Vec2 100 100 \<and>
   extent (elements (layout clamp_tree) 0) = Vec2 200 200 \<and>
   \<not> vec_x (extent (elements (layout clamp_tree) 0))
       \<le> vec_x (maxExtent (constraints (layout clamp_tree) 0))"
  by (simp add: layout_def layout_loop_id clamp_tree_def blank_tree_def)

text \<open>
  Claim C8 as amended: \<open>layout()\<close> returns and changes nothing. Every element, extent
  and constraint is after it what it was before; no extent is computed or clamped.
\<close>

theorem layout_identity: "layout t = t"
  by (simp add: layout_def layout_loop_id)

subsection \<open>Transform\<close>










section \<open>Properties of the frame pipeline and of the driver\<close>

subsection \<open>Beginning a frame\<close>

lemma GL_results_distinct:
  "GL_ALREADY_SIGNALED \<noteq> GL_WAIT_FAILED" "GL_ALREADY_SIGNALED \<noteq> GL_TIMEOUT_EXPIRED"
  "GL_CONDITION_SATISFIED \<noteq> GL_WAIT_FAILED" "GL_CONDITION_SATISFIED \<noteq> GL_TIMEOUT_EXPIRED"
  "GL_TIMEOUT_EXPIRED \<noteq> GL_WAIT_FAILED"
  by (simp_all add: GL_ALREADY_SIGNALED_def GL_WAIT_FAILED_def GL_TIMEOUT_EXPIRED_def
      GL_CONDITION_SATISFIED_def)

text \<open>
  Claim C4: \<open>begin_frame\<close> goes by the fence of the frame under the cursor. Without a
  fence it answers true and does nothing else, not even a call to the host. With a fence
  it polls once, with flags 0 and timeout 0, so the call returns without waiting. When the
  poll reports the fence signaled (\<open>GL_ALREADY_SIGNALED\<close> or
  \<open>GL_CONDITION_SATISFIED\<close>), the fence is deleted, the frame has no fence any more
  and the answer is true. On \<open>GL_TIMEOUT_EXPIRED\<close> the answer is false, the context
  (fence and cursor included) is as before, and a line is logged. On \<open>GL_WAIT_FAILED\<close>
  the answer is false, the context is as before, and the failure is reported on the
  console.
\<close>

theorem begin_frame_cases:
  "(fence (virtualFrames (ctx w) (virtualFrameIdx (ctx w))) = 0 \<longrightarrow>
      begin_frame h w = (True, w)) \<and>
   (fence (virtualFrames (ctx w) (virtualFrameIdx (ctx w))) \<noteq> 0 \<and>
    (clientWaitSync h (fence (virtualFrames (ctx w) (virtualFrameIdx (ctx w)))) = GL_ALREADY_SIGNALED \<or>
     clientWaitSync h (fence (virtualFrames (ctx w) (virtualFrameIdx (ctx w)))) = GL_CONDITION_SATISFIED) \<longrightarrow>
      fst (begin_frame h w) \<and>
      glCalls (snd (begin_frame h w))
        = glCalls w @ [ClientWaitSync (fence (virtualFrames (ctx w) (virtualFrameIdx (ctx w)))) 0 0,
                       DeleteSync (fence (virtualFrames (ctx w) (virtualFrameIdx (ctx w))))] \<and>
      fence (virtualFrames (ctx (snd (begin_frame h w))) (virtualFrameIdx (ctx w))) = 0 \<and>
      virtualFrameIdx (ctx (snd (begin_frame h w))) = virtualFrameIdx (ctx w) \<and>
      console (snd (begin_frame h w)) = console w) \<and>
   (fence (virtualFrames (ctx w) (virtualFrameIdx (ctx w))) \<noteq> 0 \<and>
    clientWaitSync h (fence (virtualFrames (ctx w) (virtualFrameIdx (ctx w)))) = GL_TIMEOUT_EXPIRED \<longrightarrow>
      \<not> fst (begin_frame h w) \<and>
      glCalls (snd (begin_frame h w))
        = glCalls w @ [ClientWaitSync (fence (virtualFrames (ctx w) (virtualFrameIdx (ctx w)))) 0 0] \<and>
      ctx (snd (begin_frame h w)) = ctx w \<and>
      console (snd (begin_frame h w)) = console w @ [''Timeout expired'']) \<and>
   (fence (virtualFrames (ctx w) (virtualFrameIdx (ctx w))) \<noteq> 0 \<and>
    clientWaitSync h (fence (virtualFrames (ctx w) (virtualFrameIdx (ctx w)))) = GL_WAIT_FAILED \<longrightarrow>
      \<not> fst (begin_frame h w) \<and>
      glCalls (snd (begin_frame h w))
        = glCalls w @ [ClientWaitSync (fence (virtualFrames (ctx w) (virtualFrameIdx (ctx w)))) 0 0] \<and>
      ctx (snd (begin_frame h w)) = ctx w \<and>
      console (snd (begin_frame h w)) = console w @ [''Wait failed''])"
  by (auto simp: begin_frame_def Let_def GL_results_distinct GL_results_distinct [symmetric])


text \<open>The four cases, each on a concrete world.\<close>

lemma idle_world_frame:
  "fence (virtualFrames (ctx idle_world) (virtualFrameIdx (ctx idle_world))) = 0"
  by (simp add: idle_world_def)

lemma busy_world_frame:
  "virtualFrameIdx (ctx busy_world) = 0"
  "fence (virtualFrames (ctx busy_world) 0) = 9"
  "glCalls busy_world = []" "console busy_world = []"
  by (simp_all add: busy_world_def idle_world_def)

lemma host_with_poll: "clientWaitSync (host_with r) f = r"
  by (simp add: host_with_def)

theorem begin_frame_cases_witness:
  "begin_frame (host_with GL_TIMEOUT_EXPIRED) idle_world = (True, idle_world) \<and>
   fst (begin_frame (host_with GL_ALREADY_SIGNALED) busy_world) \<and>
   glCalls (snd (begin_frame (host_with GL_ALREADY_SIGNALED) busy_world))
     = [ClientWaitSync 9 0 0, DeleteSync 9] \<and>
   fence (virtualFrames (ctx (snd (begin_frame (host_with GL_ALREADY_SIGNALED) busy_world))) 0) = 0 \<and>
   \<not> fst (begin_frame (host_with GL_TIMEOUT_EXPIRED) busy_world) \<and>
   glCalls (snd (begin_frame (host_with GL_TIMEOUT_EXPIRED) busy_world)) = [ClientWaitSync 9 0 0] \<and>
   ctx (snd (begin_frame (host_with GL_TIMEOUT_EXPIRED) busy_world)) = ctx busy_world \<and>
   \<not> fst (begin_frame (host_with GL_WAIT_FAILED) busy_world) \<and>
   ctx (snd (begin_frame (host_with GL_WAIT_FAILED) busy_world)) = ctx busy_world \<and>
   console (snd (begin_frame (host_with GL_WAIT_FAILED) busy_world)) = [''Wait failed'']"
proof -
  have a: "begin_frame (host_with GL_TIMEOUT_EXPIRED) idle_world = (True, idle_world)"
    using begin_frame_cases [of idle_world "host_with GL_TIMEOUT_EXPIRED"] idle_world_frame
    by simp
  have b: "fst (begin_frame (host_with GL_ALREADY_SIGNALED) busy_world) \<and>
           glCalls (snd (begin_frame (host_with GL_ALREADY_SIGNALED) busy_world))
             = [ClientWaitSync 9 0 0, DeleteSync 9] \<and>
           fence (virtualFrames (ctx (snd (begin_frame (host_with GL_ALREADY_SIGNALED) busy_world))) 0) = 0"
    using begin_frame_cases [of busy_world "host_with GL_ALREADY_SIGNALED"]
    by (simp add: busy_world_frame host_with_poll GL_results_distinct GL_results_distinct [symmetric])
  have c: "\<not> fst (begin_frame (host_with GL_TIMEOUT_EXPIRED) busy_world) \<and>
           glCalls (snd (begin_frame (host_with GL_TIMEOUT_EXPIRED) busy_world)) = [ClientWaitSync 9 0 0] \<and>
           ctx (snd (begin_frame (host_with GL_TIMEOUT_EXPIRED) busy_world)) = ctx busy_world"
    using begin_frame_cases [of busy_world "host_with GL_TIMEOUT_EXPIRED"]
    by (simp add: busy_world_frame host_with_poll GL_results_distinct GL_results_distinct [symmetric])
  have d: "\<not> fst (begin_frame (host_with GL_WAIT_FAILED) busy_world) \<and>
           ctx (snd (begin_frame (host_with GL_WAIT_FAILED) busy_world)) = ctx busy_world \<and>
           console (snd (begin_frame (host_with GL_WAIT_FAILED) busy_world)) = [''Wait failed'']"
    using begin_frame_cases [of busy_world "host_with GL_WAIT_FAILED"]
    by (simp add: busy_world_frame host_with_poll GL_results_distinct GL_results_distinct [symmetric])
  show ?thesis using a b c d by simp
qed

subsection \<open>What the parts of a tick touch\<close>

lemma begin_frame_keeps:
  "events (ctx (snd (begin_frame h w))) = events (ctx w)"
  "drawCommands (ctx (snd (begin_frame h w))) = drawCommands (ctx w)"
  "elementTree (ctx (snd (begin_frame h w))) = elementTree (ctx w)"
  "virtualFrameIdx (ctx (snd (begin_frame h w))) = virtualFrameIdx (ctx w)"
  "fence_syncs (glCalls (snd (begin_frame h w))) = fence_syncs (glCalls w)"
  by (simp_all add: begin_frame_def Let_def fence_syncs_def)

lemma begin_frame_refused:
  "\<not> fst (begin_frame h w) \<Longrightarrow> ctx (snd (begin_frame h w)) = ctx w"
  "\<not> fst (begin_frame h w) \<Longrightarrow>
     glCalls (snd (begin_frame h w))
       = glCalls w @ [ClientWaitSync (fence (virtualFrames (ctx w) (virtualFrameIdx (ctx w)))) 0 0]"
  by (simp_all add: begin_frame_def Let_def split: if_splits)

text \<open>After a poll that lets the frame begin, the current frame carries no fence.\<close>

lemma begin_frame_granted:
  "fst (begin_frame h w) \<Longrightarrow>
     virtualFrames (ctx (snd (begin_frame h w)))
       = (virtualFrames (ctx w))
           (virtualFrameIdx (ctx w) :=
              (virtualFrames (ctx w) (virtualFrameIdx (ctx w)))\<lparr>fence := 0\<rparr>)"
  by (auto simp: begin_frame_def Let_def split: if_splits)

text \<open>The answer of \<open>begin_frame\<close> depends on the ring and the host only.\<close>

lemma begin_frame_answer:
  "virtualFrames (ctx w') = virtualFrames (ctx w) \<Longrightarrow>
   virtualFrameIdx (ctx w') = virtualFrameIdx (ctx w) \<Longrightarrow>
   fst (begin_frame h w') = fst (begin_frame h w)"
  by (simp add: begin_frame_def Let_def)

lemma end_frame_effect:
  "virtualFrameIdx (ctx (end_frame h w))
     = (if virtualFrameIdx (ctx w) + 1 \<ge> virtualFrames_capacity then 0
        else virtualFrameIdx (ctx w) + 1)"
  "virtualFrames (ctx (end_frame h w))
     = (virtualFrames (ctx w))
         (virtualFrameIdx (ctx w) :=
            (virtualFrames (ctx w) (virtualFrameIdx (ctx w)))\<lparr>fence := fenceSync h\<rparr>)"
  "events (ctx (end_frame h w)) = events (ctx w)"
  "drawCommands (ctx (end_frame h w)) = drawCommands (ctx w)"
  "glCalls (end_frame h w) = glCalls w @ [FenceSync GL_SYNC_GPU_COMMANDS_COMPLETE 0]"
  by (simp_all add: end_frame_def Let_def)

lemma draw_commands_fence_syncs:
  "fence_syncs (snd (draw_commands t cmds (off, g))) = fence_syncs g"
proof (induction cmds arbitrary: off g)
  case Nil
  then show ?case by (simp add: draw_commands_def)
next
  case (Cons c cmds)
  have step: "draw_commands t (c # cmds) (off, g)
        = draw_commands t cmds
            (push_rectangle off (positions t (index (elementIndex c)))
               (extent (elements t (index (elementIndex c)))) (color c) g)"
    by (simp add: draw_commands_def)
  obtain off' g' where p: "push_rectangle off (positions t (index (elementIndex c)))
               (extent (elements t (index (elementIndex c)))) (color c) g = (off', g')"
    by (cases "push_rectangle off (positions t (index (elementIndex c)))
               (extent (elements t (index (elementIndex c)))) (color c) g")
  have "fence_syncs g' = fence_syncs g"
    using p by (auto simp: push_rectangle_def Let_def fence_syncs_def)
  then show ?case using step p Cons.IH [of off' g'] by simp
qed

lemma submit_frame_effect:
  "virtualFrameIdx (ctx (submit_frame h ts w))
     = (if virtualFrameIdx (ctx w) + 1 \<ge> virtualFrames_capacity then 0
        else virtualFrameIdx (ctx w) + 1)"
  "virtualFrames (ctx (submit_frame h ts w))
     = (virtualFrames (ctx w))
         (virtualFrameIdx (ctx w) :=
            (virtualFrames (ctx w) (virtualFrameIdx (ctx w)))\<lparr>fence := fenceSync h\<rparr>)"
  "events (ctx (submit_frame h ts w)) = events (ctx w)"
  "drawCommands (ctx (submit_frame h ts w)) = []"
  by (simp_all add: submit_frame_def Let_def case_prod_beta end_frame_effect)

lemma submit_frame_fence_syncs:
  "fence_syncs (glCalls (submit_frame h ts w)) = fence_syncs (glCalls w) + 1"
proof -
  let ?g1 = "glCalls w @ [ClearColor (2 / 10) (2 / 10) (2 / 10) 1,
                            Clear GL_COLOR_BUFFER_BIT,
                            BindBuffer GL_COPY_READ_BUFFER
                              (stagingBuffer (virtualFrames (ctx w) (virtualFrameIdx (ctx w)))),
                            BindBuffer GL_COPY_WRITE_BUFFER (geomBuf (ctx w))]"
  have g1: "fence_syncs ?g1 = fence_syncs (glCalls w)"
    by (simp add: fence_syncs_def)
  have "fence_syncs (snd (draw_commands (elementTree (ctx w)) (drawCommands (ctx w)) (0, ?g1)))
          = fence_syncs ?g1"
    by (rule draw_commands_fence_syncs)
  with g1 have d: "length (filter (\<lambda>c. case c of FenceSync _ _ \<Rightarrow> True | _ \<Rightarrow> False)
          (snd (draw_commands (elementTree (ctx w)) (drawCommands (ctx w)) (0, ?g1))))
          = fence_syncs (glCalls w)"
    by (simp add: fence_syncs_def)
  show ?thesis
    using d by (simp add: submit_frame_def Let_def case_prod_beta end_frame_effect fence_syncs_def)
qed


lemma rebuild_and_queue_effect:
  "virtualFrames (ctx (rebuild_and_queue h w)) = virtualFrames (ctx w)"
  "virtualFrameIdx (ctx (rebuild_and_queue h w)) = virtualFrameIdx (ctx w)"
  "events (ctx (rebuild_and_queue h w)) = []"
  "length (drawCommands (ctx (rebuild_and_queue h w))) = length (drawCommands (ctx w)) + 1"
  "glCalls (rebuild_and_queue h w) = glCalls w"
  "console (rebuild_and_queue h w) = console w"
  by (simp_all add: rebuild_and_queue_def Let_def case_prod_beta)

lemma c_render_empty:
  "events (ctx w) = [] \<Longrightarrow> c_render h ts w = w\<lparr>lastTimestamp := ts\<rparr>"
  by (simp add: c_render_def Let_def)

lemma c_render_answer:
  "fst (begin_frame h (rebuild_and_queue h (w\<lparr>lastTimestamp := ts\<rparr>))) = fst (begin_frame h w)"
  by (rule begin_frame_answer) (simp_all add: rebuild_and_queue_effect)

lemma c_render_refused:
  assumes "events (ctx w) \<noteq> []" and "\<not> fst (begin_frame h w)"
  shows "c_render h ts w = snd (begin_frame h (rebuild_and_queue h (w\<lparr>lastTimestamp := ts\<rparr>)))"
  using assms c_render_answer [where h = h and w = w and ts = ts]
  by (simp add: c_render_def Let_def case_prod_beta)

lemma c_render_granted:
  assumes "events (ctx w) \<noteq> []" and "fst (begin_frame h w)"
  shows "c_render h ts w
           = submit_frame h ts (snd (begin_frame h (rebuild_and_queue h (w\<lparr>lastTimestamp := ts\<rparr>))))"
  using assms c_render_answer [where h = h and w = w and ts = ts]
  by (simp add: c_render_def Let_def case_prod_beta)

lemma c_render_events: "events (ctx (c_render h ts w)) = []"
proof (cases "events (ctx w) = []")
  case True
  then show ?thesis by (simp add: c_render_empty)
next
  case False
  show ?thesis
  proof (cases "fst (begin_frame h w)")
    case True
    with False show ?thesis
      by (simp add: c_render_granted submit_frame_effect begin_frame_keeps
          rebuild_and_queue_effect)
  next
    case False
    with \<open>events (ctx w) \<noteq> []\<close> show ?thesis
      by (simp add: c_render_refused begin_frame_keeps rebuild_and_queue_effect)
  qed
qed

lemma wrap_mod:
  assumes "0 \<le> (k::int)" and "k < 3"
  shows "(if k + 1 \<ge> 3 then 0 else k + 1) = (k + 1) mod 3"
proof -
  from assms have "k = 0 \<or> k = 1 \<or> k = 2" by arith
  then show ?thesis by auto
qed

lemma c_render_proceeds:
  assumes "events (ctx w) \<noteq> []" and "fst (begin_frame h w)"
  shows "virtualFrameIdx (ctx (c_render h ts w))
           = (if virtualFrameIdx (ctx w) + 1 \<ge> 3 then 0 else virtualFrameIdx (ctx w) + 1)"
    and "virtualFrames (ctx (c_render h ts w))
           = (virtualFrames (ctx w))
               (virtualFrameIdx (ctx w) :=
                  (virtualFrames (ctx w) (virtualFrameIdx (ctx w)))\<lparr>fence := fenceSync h\<rparr>)"
    and "drawCommands (ctx (c_render h ts w)) = []"
    and "fence_syncs (glCalls (c_render h ts w)) = fence_syncs (glCalls w) + 1"
proof -
  let ?q = "rebuild_and_queue h (w\<lparr>lastTimestamp := ts\<rparr>)"
  have g: "fst (begin_frame h ?q)"
    using assms(2) by (simp add: c_render_answer)
  have r: "c_render h ts w = submit_frame h ts (snd (begin_frame h ?q))"
    using assms by (rule c_render_granted)
  show "virtualFrameIdx (ctx (c_render h ts w))
           = (if virtualFrameIdx (ctx w) + 1 \<ge> 3 then 0 else virtualFrameIdx (ctx w) + 1)"
    by (simp add: r submit_frame_effect begin_frame_keeps rebuild_and_queue_effect
        virtualFrames_capacity_def)
  show "virtualFrames (ctx (c_render h ts w))
           = (virtualFrames (ctx w))
               (virtualFrameIdx (ctx w) :=
                  (virtualFrames (ctx w) (virtualFrameIdx (ctx w)))\<lparr>fence := fenceSync h\<rparr>)"
    by (simp add: r submit_frame_effect begin_frame_keeps begin_frame_granted [OF g]
        rebuild_and_queue_effect)
  show "drawCommands (ctx (c_render h ts w)) = []"
    by (simp add: r submit_frame_effect)
  show "fence_syncs (glCalls (c_render h ts w)) = fence_syncs (glCalls w) + 1"
    by (simp add: r submit_frame_fence_syncs begin_frame_keeps rebuild_and_queue_effect)
qed

lemma c_render_idx_range:
  assumes "0 \<le> virtualFrameIdx (ctx w)" and "virtualFrameIdx (ctx w) < 3"
  shows "0 \<le> virtualFrameIdx (ctx (c_render h ts w)) \<and> virtualFrameIdx (ctx (c_render h ts w)) < 3"
proof (cases "events (ctx w) = []")
  case True
  with assms show ?thesis by (simp add: c_render_empty)
next
  case False
  show ?thesis
  proof (cases "fst (begin_frame h w)")
    case True
    with False assms show ?thesis
      by (simp add: c_render_proceeds)
  next
    case False
    with \<open>events (ctx w) \<noteq> []\<close> assms show ?thesis
      by (simp add: c_render_refused begin_frame_keeps rebuild_and_queue_effect)
  qed
qed


subsection \<open>A tick without events\<close>

text \<open>
  Claim C10: when the event queue is empty, \<open>c_render\<close> returns at once. The only
  thing it has changed is its own static \<open>lastTimestamp\<close>: the context (tree, draw
  commands, frames, fences, cursor) is the same, no call went to the host, nothing was
  logged. Every tick leaves the event queue empty, so a tick that follows another without
  a new event in between does nothing: no frame is rendered until an event has been
  queued.
\<close>

theorem c_render_idle:
  "(events (ctx w) = [] \<longrightarrow> c_render h ts w = w\<lparr>lastTimestamp := ts\<rparr>) \<and>
   events (ctx (c_render h ts w)) = [] \<and>
   c_render h' ts' (c_render h ts w) = (c_render h ts w)\<lparr>lastTimestamp := ts'\<rparr>"
  by (simp add: c_render_empty c_render_events)

theorem c_render_idle_witness:
  "events (ctx idle_world) = [] \<and>
   c_render (host_with GL_ALREADY_SIGNALED) 5 idle_world = idle_world\<lparr>lastTimestamp := 5\<rparr> \<and>
   glCalls (c_render (host_with GL_ALREADY_SIGNALED) 5 idle_world) = [] \<and>
   drawCommands (ctx (c_render (host_with GL_ALREADY_SIGNALED) 5 idle_world)) = [] \<and>
   virtualFrameIdx (ctx (c_render (host_with GL_ALREADY_SIGNALED) 5 idle_world)) = 0"
proof -
  have e: "events (ctx idle_world) = []"
    by (simp add: idle_world_def)
  have r: "c_render (host_with GL_ALREADY_SIGNALED) 5 idle_world = idle_world\<lparr>lastTimestamp := 5\<rparr>"
    using c_render_idle [of idle_world "host_with GL_ALREADY_SIGNALED" 5] e by simp
  show ?thesis
    using e r by (simp add: idle_world_def)
qed

subsection \<open>A tick that may not begin its frame\<close>

text \<open>
  Uploading the rectangles advances the offset by 144 bytes per command, and the draw
  call of a frame covers the rectangles and the triangle.
\<close>

lemma draw_commands_offset:
  "fst (draw_commands t cmds (off, g)) = off + 144 * int (length cmds)"
proof (induction cmds arbitrary: off g)
  case Nil
  then show ?case by (simp add: draw_commands_def)
next
  case (Cons c cmds)
  have step: "draw_commands t (c # cmds) (off, g)
        = draw_commands t cmds
            (push_rectangle off (positions t (index (elementIndex c)))
               (extent (elements t (index (elementIndex c)))) (color c) g)"
    by (simp add: draw_commands_def)
  have "fst (push_rectangle off (positions t (index (elementIndex c)))
               (extent (elements t (index (elementIndex c)))) (color c) g) = off + 144"
    by (simp add: push_rectangle_def Let_def)
  then obtain g' where "push_rectangle off (positions t (index (elementIndex c)))
               (extent (elements t (index (elementIndex c)))) (color c) g = (off + 144, g')"
    by (metis prod.collapse)
  then show ?case using step Cons.IH [of "off + 144" g'] by simp
qed

lemma submit_frame_draws:
  "DrawArrays GL_TRIANGLES 0 ((144 * int (length (drawCommands (ctx w))) + 72) div 24)
     \<in> set (glCalls (submit_frame h ts w))"
proof -
  let ?g1 = "glCalls w @ [ClearColor (2 / 10) (2 / 10) (2 / 10) 1,
                            Clear GL_COLOR_BUFFER_BIT,
                            BindBuffer GL_COPY_READ_BUFFER
                              (stagingBuffer (virtualFrames (ctx w) (virtualFrameIdx (ctx w)))),
                            BindBuffer GL_COPY_WRITE_BUFFER (geomBuf (ctx w))]"
  have "fst (draw_commands (elementTree (ctx w)) (drawCommands (ctx w)) (0, ?g1))
          = 144 * int (length (drawCommands (ctx w)))"
    by (simp add: draw_commands_offset)
  then show ?thesis
    by (simp add: submit_frame_def Let_def case_prod_beta end_frame_effect)
qed

text \<open>
  Claim C5 says that a tick whose \<open>begin_frame\<close> answers false writes no geometry,
  does not reach \<open>end_frame\<close>, and ends with both the event queue and the draw command
  queue empty, its commands discarded and not retried. \<open>c_render\<close> returns before
  \<open>drawCommands.clear()\<close>, which only the path that submits reaches. On the world with
  fence 9 outstanding on frame 0, one queued event and no draw command, a poll that times
  out gives a tick whose only call to the host is the poll, which leaves cursor and fence
  alone and empties the event queue, but which leaves one command in the draw command
  queue. The next tick that proceeds draws 15 vertices: two rectangles, the stale one and
  its own, and the triangle.
\<close>

theorem c_render_skip_keeps_commands:
  "events (ctx busy_world) \<noteq> [] \<and>
   drawCommands (ctx busy_world) = [] \<and>
   \<not> fst (begin_frame (host_with GL_TIMEOUT_EXPIRED)
            (rebuild_and_queue (host_with GL_TIMEOUT_EXPIRED) (busy_world\<lparr>lastTimestamp := 1\<rparr>))) \<and>
   glCalls (c_render (host_with GL_TIMEOUT_EXPIRED) 1 busy_world) = [ClientWaitSync 9 0 0] \<and>
   virtualFrameIdx (ctx (c_render (host_with GL_TIMEOUT_EXPIRED) 1 busy_world)) = 0 \<and>
   fence (virtualFrames (ctx (c_render (host_with GL_TIMEOUT_EXPIRED) 1 busy_world)) 0) = 9 \<and>
   events (ctx (c_render (host_with GL_TIMEOUT_EXPIRED) 1 busy_world)) = [] \<and>
   length (drawCommands (ctx (c_render (host_with GL_TIMEOUT_EXPIRED) 1 busy_world))) = 1 \<and>
   DrawArrays GL_TRIANGLES 0 15
     \<in> set (glCalls (tick (host_with GL_ALREADY_SIGNALED) 2 [Event MOUSE_DOWN 0 0 0]
                       (c_render (host_with GL_TIMEOUT_EXPIRED) 1 busy_world)))"
proof -
  let ?H = "host_with GL_TIMEOUT_EXPIRED"
  let ?q = "rebuild_and_queue ?H (busy_world\<lparr>lastTimestamp := 1\<rparr>)"
  have ev: "events (ctx busy_world) \<noteq> []" and dc: "drawCommands (ctx busy_world) = []"
    by (simp_all add: busy_world_def idle_world_def)
  have no: "\<not> fst (begin_frame ?H busy_world)"
    by (simp add: begin_frame_def Let_def busy_world_frame host_with_poll GL_results_distinct)
  then have noq: "\<not> fst (begin_frame ?H ?q)"
    by (simp add: c_render_answer)
  have r: "c_render ?H 1 busy_world = snd (begin_frame ?H ?q)"
    using ev no by (rule c_render_refused)
  have cx: "ctx (c_render ?H 1 busy_world) = ctx ?q"
    using noq by (simp add: r begin_frame_refused)
  have g: "glCalls (c_render ?H 1 busy_world) = [ClientWaitSync 9 0 0]"
    using noq by (simp add: r begin_frame_refused rebuild_and_queue_effect busy_world_frame)
  have len: "length (drawCommands (ctx (c_render ?H 1 busy_world))) = 1"
    by (simp add: cx rebuild_and_queue_effect dc)
  let ?w1 = "c_render ?H 1 busy_world"
  let ?G = "host_with GL_ALREADY_SIGNALED"
  let ?a = "arrive [Event MOUSE_DOWN 0 0 0] ?w1"
  have ev1: "events (ctx ?a) \<noteq> []"
    by (simp add: arrive_def)
  have ok1: "fst (begin_frame ?G ?a)"
    by (simp add: begin_frame_def Let_def host_with_poll GL_results_distinct)
  let ?q1 = "rebuild_and_queue ?G (?a\<lparr>lastTimestamp := 2\<rparr>)"
  have t: "tick ?G 2 [Event MOUSE_DOWN 0 0 0] ?w1 = submit_frame ?G 2 (snd (begin_frame ?G ?q1))"
    unfolding tick_def using ev1 ok1 by (rule c_render_granted)
  have len1: "length (drawCommands (ctx (snd (begin_frame ?G ?q1)))) = 2"
    using len by (simp add: begin_frame_keeps rebuild_and_queue_effect arrive_def)
  have "DrawArrays GL_TRIANGLES 0 15 \<in> set (glCalls (submit_frame ?G 2 (snd (begin_frame ?G ?q1))))"
    using submit_frame_draws [of "snd (begin_frame ?G ?q1)" ?G 2] len1 by simp
  then show ?thesis
    using ev dc noq g len t
    by (simp add: cx rebuild_and_queue_effect busy_world_frame c_render_events)
qed


subsection \<open>The ring of frames\<close>

lemma arrive_effect:
  "virtualFrames (ctx (arrive evs w)) = virtualFrames (ctx w)"
  "virtualFrameIdx (ctx (arrive evs w)) = virtualFrameIdx (ctx w)"
  "glCalls (arrive evs w) = glCalls w"
  "events (ctx (arrive evs w)) = events (ctx w) @ evs"
  by (simp_all add: arrive_def)

text \<open>A tick that proceeds arms the fence of the frame under the cursor and moves on.\<close>

lemma tick_proceeds:
  assumes "proceeds h evs w"
  shows "virtualFrameIdx (ctx (tick h ts evs w))
           = (if virtualFrameIdx (ctx w) + 1 \<ge> 3 then 0 else virtualFrameIdx (ctx w) + 1)"
    and "virtualFrames (ctx (tick h ts evs w))
           = (virtualFrames (ctx w))
               (virtualFrameIdx (ctx w) :=
                  (virtualFrames (ctx w) (virtualFrameIdx (ctx w)))\<lparr>fence := fenceSync h\<rparr>)"
    and "fence_syncs (glCalls (tick h ts evs w)) = fence_syncs (glCalls w) + 1"
proof -
  from assms have e: "events (ctx (arrive evs w)) \<noteq> []" and b: "fst (begin_frame h (arrive evs w))"
    by (simp_all add: proceeds_def)
  show "virtualFrameIdx (ctx (tick h ts evs w))
           = (if virtualFrameIdx (ctx w) + 1 \<ge> 3 then 0 else virtualFrameIdx (ctx w) + 1)"
    using c_render_proceeds(1) [OF e b, of ts] by (simp add: tick_def arrive_effect)
  show "virtualFrames (ctx (tick h ts evs w))
           = (virtualFrames (ctx w))
               (virtualFrameIdx (ctx w) :=
                  (virtualFrames (ctx w) (virtualFrameIdx (ctx w)))\<lparr>fence := fenceSync h\<rparr>)"
    using c_render_proceeds(2) [OF e b, of ts] by (simp add: tick_def arrive_effect)
  show "fence_syncs (glCalls (tick h ts evs w)) = fence_syncs (glCalls w) + 1"
    using c_render_proceeds(4) [OF e b, of ts] by (simp add: tick_def arrive_effect)
qed

text \<open>
  Claim C6. With the cursor in the range of the ring (0, 1 or 2): \<open>end_frame\<close> stores
  the new fence in the frame under the cursor, having asked the host for it, and moves
  the cursor to (cursor + 1) mod 3; whatever a tick does, the cursor is in the range
  after it. Over three consecutive ticks that proceed, the cursor steps through
  (k + 1) mod 3 and is back at its starting value \<open>k\<close>; the three frames that the three
  ticks submit are pairwise different and are all of 0, 1, 2; each tick creates exactly
  one fence; and at the end every frame carries the fence of the one tick that submitted
  it. The queues of the three ticks stay within the 64 entries of the event array.
\<close>

theorem ring_advance:
  assumes lo: "0 \<le> virtualFrameIdx (ctx w0)" and hi: "virtualFrameIdx (ctx w0) < 3"
    and room: "length (events (ctx w0) @ e1) \<le> 64" "length e2 \<le> 64" "length e3 \<le> 64"
    and p1: "proceeds h1 e1 w0"
    and p2: "proceeds h2 e2 (tick h1 t1 e1 w0)"
    and p3: "proceeds h3 e3 (tick h2 t2 e2 (tick h1 t1 e1 w0))"
  shows "virtualFrameIdx (ctx (end_frame h w0)) = (virtualFrameIdx (ctx w0) + 1) mod 3 \<and>
         fence (virtualFrames (ctx (end_frame h w0)) (virtualFrameIdx (ctx w0))) = fenceSync h \<and>
         glCalls (end_frame h w0) = glCalls w0 @ [FenceSync GL_SYNC_GPU_COMMANDS_COMPLETE 0] \<and>
         0 \<le> virtualFrameIdx (ctx (c_render h t w0)) \<and> virtualFrameIdx (ctx (c_render h t w0)) < 3 \<and>
         (let k0 = virtualFrameIdx (ctx w0);
              w1 = tick h1 t1 e1 w0; k1 = virtualFrameIdx (ctx w1);
              w2 = tick h2 t2 e2 w1; k2 = virtualFrameIdx (ctx w2);
              w3 = tick h3 t3 e3 w2
          in k1 = (k0 + 1) mod 3 \<and> k2 = (k1 + 1) mod 3 \<and>
             virtualFrameIdx (ctx w3) = (k2 + 1) mod 3 \<and>
             virtualFrameIdx (ctx w3) = k0 \<and>
             distinct [k0, k1, k2] \<and> set [k0, k1, k2] = {0, 1, 2} \<and>
             fence_syncs (glCalls w1) = fence_syncs (glCalls w0) + 1 \<and>
             fence_syncs (glCalls w2) = fence_syncs (glCalls w1) + 1 \<and>
             fence_syncs (glCalls w3) = fence_syncs (glCalls w2) + 1 \<and>
             fence (virtualFrames (ctx w1) k0) = fenceSync h1 \<and>
             fence (virtualFrames (ctx w2) k1) = fenceSync h2 \<and>
             fence (virtualFrames (ctx w3) k2) = fenceSync h3 \<and>
             fence (virtualFrames (ctx w3) k0) = fenceSync h1 \<and>
             fence (virtualFrames (ctx w3) k1) = fenceSync h2)"
proof -
  let ?k0 = "virtualFrameIdx (ctx w0)"
  let ?w1 = "tick h1 t1 e1 w0"
  let ?w2 = "tick h2 t2 e2 ?w1"
  let ?w3 = "tick h3 t3 e3 ?w2"
  let ?k1 = "virtualFrameIdx (ctx ?w1)"
  let ?k2 = "virtualFrameIdx (ctx ?w2)"
  from lo hi have k0: "?k0 = 0 \<or> ?k0 = 1 \<or> ?k0 = 2" by arith
  have e: "virtualFrameIdx (ctx (end_frame h w0)) = (?k0 + 1) mod 3 \<and>
           fence (virtualFrames (ctx (end_frame h w0)) ?k0) = fenceSync h \<and>
           glCalls (end_frame h w0) = glCalls w0 @ [FenceSync GL_SYNC_GPU_COMMANDS_COMPLETE 0]"
    using wrap_mod [OF lo hi] by (simp add: end_frame_effect virtualFrames_capacity_def)
  have inv: "0 \<le> virtualFrameIdx (ctx (c_render h t w0)) \<and> virtualFrameIdx (ctx (c_render h t w0)) < 3"
    using lo hi by (rule c_render_idx_range)
  have k1: "?k1 = (if ?k0 + 1 \<ge> 3 then 0 else ?k0 + 1)"
    using p1 by (rule tick_proceeds(1))
  have k2: "?k2 = (if ?k1 + 1 \<ge> 3 then 0 else ?k1 + 1)"
    using p2 by (rule tick_proceeds(1))
  have k3: "virtualFrameIdx (ctx ?w3) = (if ?k2 + 1 \<ge> 3 then 0 else ?k2 + 1)"
    using p3 by (rule tick_proceeds(1))
  have f1: "virtualFrames (ctx ?w1)
              = (virtualFrames (ctx w0))(?k0 := (virtualFrames (ctx w0) ?k0)\<lparr>fence := fenceSync h1\<rparr>)"
    using p1 by (rule tick_proceeds(2))
  have f2: "virtualFrames (ctx ?w2)
              = (virtualFrames (ctx ?w1))(?k1 := (virtualFrames (ctx ?w1) ?k1)\<lparr>fence := fenceSync h2\<rparr>)"
    using p2 by (rule tick_proceeds(2))
  have f3: "virtualFrames (ctx ?w3)
              = (virtualFrames (ctx ?w2))(?k2 := (virtualFrames (ctx ?w2) ?k2)\<lparr>fence := fenceSync h3\<rparr>)"
    using p3 by (rule tick_proceeds(2))
  have s1: "fence_syncs (glCalls ?w1) = fence_syncs (glCalls w0) + 1"
    using p1 by (rule tick_proceeds(3))
  have s2: "fence_syncs (glCalls ?w2) = fence_syncs (glCalls ?w1) + 1"
    using p2 by (rule tick_proceeds(3))
  have s3: "fence_syncs (glCalls ?w3) = fence_syncs (glCalls ?w2) + 1"
    using p3 by (rule tick_proceeds(3))
  have cur: "(?k1 = (?k0 + 1) mod 3 \<and> ?k2 = (?k1 + 1) mod 3 \<and>
             virtualFrameIdx (ctx ?w3) = (?k2 + 1) mod 3 \<and> virtualFrameIdx (ctx ?w3) = ?k0 \<and>
             distinct [?k0, ?k1, ?k2] \<and> set [?k0, ?k1, ?k2] = {0, 1, 2}) \<and>
             (?k0 \<noteq> ?k1 \<and> ?k0 \<noteq> ?k2 \<and> ?k1 \<noteq> ?k2)"
  proof -
    from k0 consider "?k0 = 0" | "?k0 = 1" | "?k0 = 2" by blast
    then show ?thesis
    proof cases
      case 1
      with k1 have a: "?k1 = 1" by simp
      with k2 have b: "?k2 = 2" by simp
      with k3 have c: "virtualFrameIdx (ctx ?w3) = 0" by simp
      show ?thesis unfolding 1 a b c by auto
    next
      case 2
      with k1 have a: "?k1 = 2" by simp
      with k2 have b: "?k2 = 0" by simp
      with k3 have c: "virtualFrameIdx (ctx ?w3) = 1" by simp
      show ?thesis unfolding 2 a b c by auto
    next
      case 3
      with k1 have a: "?k1 = 0" by simp
      with k2 have b: "?k2 = 1" by simp
      with k3 have c: "virtualFrameIdx (ctx ?w3) = 2" by simp
      show ?thesis unfolding 3 a b c by auto
    qed
  qed
  have fences: "fence (virtualFrames (ctx ?w1) ?k0) = fenceSync h1 \<and>
                fence (virtualFrames (ctx ?w2) ?k1) = fenceSync h2 \<and>
                fence (virtualFrames (ctx ?w3) ?k2) = fenceSync h3 \<and>
                fence (virtualFrames (ctx ?w3) ?k0) = fenceSync h1 \<and>
                fence (virtualFrames (ctx ?w3) ?k1) = fenceSync h2"
  proof -
    from cur have d: "?k0 \<noteq> ?k1" "?k0 \<noteq> ?k2" "?k1 \<noteq> ?k2" by blast+
    have a: "fence (virtualFrames (ctx ?w1) ?k0) = fenceSync h1"
      by (simp add: f1)
    have b: "fence (virtualFrames (ctx ?w2) ?k1) = fenceSync h2"
      by (simp add: f2)
    have c: "fence (virtualFrames (ctx ?w3) ?k2) = fenceSync h3"
      by (simp add: f3)
    have a2: "virtualFrames (ctx ?w2) ?k0 = virtualFrames (ctx ?w1) ?k0"
      using d(1) by (simp add: f2)
    have a3: "virtualFrames (ctx ?w3) ?k0 = virtualFrames (ctx ?w2) ?k0"
      using d(2) by (simp add: f3)
    have b3: "virtualFrames (ctx ?w3) ?k1 = virtualFrames (ctx ?w2) ?k1"
      using d(3) by (simp add: f3)
    show ?thesis
      using a b c by (simp add: a2 a3 b3)
  qed
  show ?thesis
    unfolding Let_def using e inv cur s1 s2 s3 fences by blast
qed


text \<open>
  Three ticks from that world, against a host that reports every fence signaled
  and hands out the fences 21, 22 and 23.
\<close>

lemma proceeds_signaled:
  assumes "evs \<noteq> []" and "clientWaitSync h = (\<lambda>_. GL_ALREADY_SIGNALED)"
  shows "proceeds h evs w"
  using assms
  by (simp add: proceeds_def arrive_effect begin_frame_def Let_def GL_results_distinct)

theorem ring_advance_witness:
  "virtualFrameIdx (ctx idle_world) = 0 \<and>
   virtualFrameIdx (ctx (tick ((host_with GL_ALREADY_SIGNALED)\<lparr>fenceSync := 21\<rparr>) 1
                          [Event MOUSE_MOVE 10 20 (- 1)] idle_world)) = 1 \<and>
   virtualFrameIdx (ctx (tick ((host_with GL_ALREADY_SIGNALED)\<lparr>fenceSync := 22\<rparr>) 2
                          [Event MOUSE_DOWN 0 0 0]
                    (tick ((host_with GL_ALREADY_SIGNALED)\<lparr>fenceSync := 21\<rparr>) 1
                          [Event MOUSE_MOVE 10 20 (- 1)] idle_world))) = 2 \<and>
   virtualFrameIdx (ctx (tick ((host_with GL_ALREADY_SIGNALED)\<lparr>fenceSync := 23\<rparr>) 3
                          [Event MOUSE_UP 0 0 0]
                    (tick ((host_with GL_ALREADY_SIGNALED)\<lparr>fenceSync := 22\<rparr>) 2
                          [Event MOUSE_DOWN 0 0 0]
                    (tick ((host_with GL_ALREADY_SIGNALED)\<lparr>fenceSync := 21\<rparr>) 1
                          [Event MOUSE_MOVE 10 20 (- 1)] idle_world)))) = 0 \<and>
   fence (virtualFrames
            (ctx (tick ((host_with GL_ALREADY_SIGNALED)\<lparr>fenceSync := 23\<rparr>) 3
                          [Event MOUSE_UP 0 0 0]
                    (tick ((host_with GL_ALREADY_SIGNALED)\<lparr>fenceSync := 22\<rparr>) 2
                          [Event MOUSE_DOWN 0 0 0]
                    (tick ((host_with GL_ALREADY_SIGNALED)\<lparr>fenceSync := 21\<rparr>) 1
                          [Event MOUSE_MOVE 10 20 (- 1)] idle_world)))) 0) = 21 \<and>
   fence (virtualFrames
            (ctx (tick ((host_with GL_ALREADY_SIGNALED)\<lparr>fenceSync := 23\<rparr>) 3
                          [Event MOUSE_UP 0 0 0]
                    (tick ((host_with GL_ALREADY_SIGNALED)\<lparr>fenceSync := 22\<rparr>) 2
                          [Event MOUSE_DOWN 0 0 0]
                    (tick ((host_with GL_ALREADY_SIGNALED)\<lparr>fenceSync := 21\<rparr>) 1
                          [Event MOUSE_MOVE 10 20 (- 1)] idle_world)))) 1) = 22 \<and>
   fence (virtualFrames
            (ctx (tick ((host_with GL_ALREADY_SIGNALED)\<lparr>fenceSync := 23\<rparr>) 3
                          [Event MOUSE_UP 0 0 0]
                    (tick ((host_with GL_ALREADY_SIGNALED)\<lparr>fenceSync := 22\<rparr>) 2
                          [Event MOUSE_DOWN 0 0 0]
                    (tick ((host_with GL_ALREADY_SIGNALED)\<lparr>fenceSync := 21\<rparr>) 1
                          [Event MOUSE_MOVE 10 20 (- 1)] idle_world)))) 2) = 23"
proof -
  let ?h1 = "(host_with GL_ALREADY_SIGNALED)\<lparr>fenceSync := 21\<rparr>"
  let ?h2 = "(host_with GL_ALREADY_SIGNALED)\<lparr>fenceSync := 22\<rparr>"
  let ?h3 = "(host_with GL_ALREADY_SIGNALED)\<lparr>fenceSync := 23\<rparr>"
  let ?e1 = "[Event MOUSE_MOVE 10 20 (- 1)]"
  let ?e2 = "[Event MOUSE_DOWN 0 0 0]"
  let ?e3 = "[Event MOUSE_UP 0 0 0]"
  have k: "virtualFrameIdx (ctx idle_world) = 0"
    by (simp add: idle_world_def)
  have lo: "0 \<le> virtualFrameIdx (ctx idle_world)" and hi: "virtualFrameIdx (ctx idle_world) < 3"
    by (simp_all add: k)
  have room: "length (events (ctx idle_world) @ ?e1) \<le> 64" "length ?e2 \<le> 64" "length ?e3 \<le> 64"
    by (simp_all add: idle_world_def)
  have p1: "proceeds ?h1 ?e1 idle_world"
    by (rule proceeds_signaled) (simp_all add: host_with_def)
  have p2: "proceeds ?h2 ?e2 (tick ?h1 1 ?e1 idle_world)"
    by (rule proceeds_signaled) (simp_all add: host_with_def)
  have p3: "proceeds ?h3 ?e3 (tick ?h2 2 ?e2 (tick ?h1 1 ?e1 idle_world))"
    by (rule proceeds_signaled) (simp_all add: host_with_def)
  have f: "fenceSync ?h1 = 21" "fenceSync ?h2 = 22" "fenceSync ?h3 = 23"
    by simp_all
  let ?w1 = "tick ?h1 1 ?e1 idle_world"
  let ?w2 = "tick ?h2 2 ?e2 ?w1"
  let ?w3 = "tick ?h3 3 ?e3 ?w2"
  note r = ring_advance [OF lo hi room p1 p2 p3, where ?t3.0 = 3, unfolded Let_def k]
  from r have "virtualFrameIdx (ctx ?w1) = (0 + 1) mod 3" by blast
  then have a1: "virtualFrameIdx (ctx ?w1) = 1" by simp
  from r have "virtualFrameIdx (ctx ?w2) = (virtualFrameIdx (ctx ?w1) + 1) mod 3" by blast
  then have a2: "virtualFrameIdx (ctx ?w2) = 2" by (simp add: a1)
  from r have a3: "virtualFrameIdx (ctx ?w3) = 0" by blast
  from r have "fence (virtualFrames (ctx ?w3) 0) = fenceSync ?h1" by blast
  then have b1: "fence (virtualFrames (ctx ?w3) 0) = 21" by simp
  from r have "fence (virtualFrames (ctx ?w3) (virtualFrameIdx (ctx ?w1))) = fenceSync ?h2" by blast
  then have b2: "fence (virtualFrames (ctx ?w3) 1) = 22" by (simp add: a1)
  from r have "fence (virtualFrames (ctx ?w3) (virtualFrameIdx (ctx ?w2))) = fenceSync ?h3" by blast
  then have b3: "fence (virtualFrames (ctx ?w3) 2) = 23" by (simp add: a2)
  show ?thesis
    using k a1 a2 a3 b1 b2 b3 by blast
qed

end
